theory Spec2Isabelle
  imports Main "HOL-Library.Word"
begin

section \<open>Go values used by the plugin\<close>

text \<open>
  A Go \<^verbatim>\<open>string\<close> is a byte sequence: \<^typ>\<open>string\<close> (a list of 8-bit characters).
  A Go \<^verbatim>\<open>error\<close> is modelled by its message text; the interface value is
  \<open>None\<close> for \<^verbatim>\<open>nil\<close>. A slice that may be \<^verbatim>\<open>nil\<close> is an \<open>option\<close> of a list
  (\<^verbatim>\<open>json.Marshal\<close> tells a nil slice from an empty one).
\<close>

type_synonym go_error = string

definition byte :: "char \<Rightarrow> nat" where
  "byte c = of_char c"

subsection \<open>\<^verbatim>\<open>strings.ToLower\<close>\<close>

text \<open>
  \<^verbatim>\<open>strings.ToLower\<close> of the Go standard library: a string of ASCII bytes only has its
  bytes \<^verbatim>\<open>'A'..'Z'\<close> moved by \<^verbatim>\<open>'a' - 'A'\<close>; any other string goes through
  \<^verbatim>\<open>strings.Map(unicode.ToLower, s)\<close>, whose Unicode tables are a parameter here.
\<close>

definition isASCII :: "string \<Rightarrow> bool" where
  "isASCII s = list_all (\<lambda>c. byte c < 128) s"

definition lower_byte :: "char \<Rightarrow> char" where
  "lower_byte c = (if 65 \<le> byte c \<and> byte c \<le> 90 then char_of (byte c + 32) else c)"

definition ToLower :: "(string \<Rightarrow> string) \<Rightarrow> string \<Rightarrow> string" where
  "ToLower unicode_map s = (if isASCII s then map lower_byte s else unicode_map s)"

subsection \<open>\<^verbatim>\<open>json.Marshal\<close> on strings and string slices\<close>

text \<open>
  \<^verbatim>\<open>utf8.DecodeRuneInString\<close>, as far as the encoder needs it: the number of bytes of the
  well-formed UTF-8 sequence at the head of the string, \<open>0\<close> when the head is not one
  (Go then yields \<^verbatim>\<open>RuneError\<close> of width 1).
\<close>

definition cont :: "nat \<Rightarrow> nat \<Rightarrow> char \<Rightarrow> bool" where
  "cont lo hi c = (lo \<le> byte c \<and> byte c \<le> hi)"

fun rune_len :: "string \<Rightarrow> nat" where
  "rune_len [] = 0"
| "rune_len (c # cs) =
     (let b = byte c in
      if b < 128 then 1
      else if 194 \<le> b \<and> b \<le> 223 then
        (case cs of c1 # _ \<Rightarrow> if cont 128 191 c1 then 2 else 0 | _ \<Rightarrow> 0)
      else if 224 \<le> b \<and> b \<le> 239 then
        (case cs of c1 # c2 # _ \<Rightarrow>
           if cont (if b = 224 then 160 else 128) (if b = 237 then 159 else 191) c1
              \<and> cont 128 191 c2 then 3 else 0
         | _ \<Rightarrow> 0)
      else if 240 \<le> b \<and> b \<le> 244 then
        (case cs of c1 # c2 # c3 # _ \<Rightarrow>
           if cont (if b = 240 then 144 else 128) (if b = 244 then 143 else 191) c1
              \<and> cont 128 191 c2 \<and> cont 128 191 c3 then 4 else 0
         | _ \<Rightarrow> 0)
      else 0)"

definition hex_digit :: "nat \<Rightarrow> char" where
  "hex_digit n = (''0123456789abcdef'') ! (n mod 16)"

text \<open>
  One ASCII byte inside a JSON string, with HTML escaping on (the default of
  \<^verbatim>\<open>json.Marshal\<close>): the quote and the backslash get a backslash, the control bytes with
  a short form use it, every other byte below \<^verbatim>\<open>0x20\<close> and \<^verbatim>\<open><\<close>, \<^verbatim>\<open>>\<close>, \<^verbatim>\<open>&\<close> are written
  \<^verbatim>\<open>\u00XX\<close>.
\<close>

definition escape_ascii :: "char \<Rightarrow> string" where
  "escape_ascii c =
     (let b = byte c in
      if b = 92 \<or> b = 34 then [CHR 0x5C, c]
      else if b = 8 then [CHR 0x5C, CHR ''b'']
      else if b = 12 then [CHR 0x5C, CHR ''f'']
      else if b = 10 then [CHR 0x5C, CHR ''n'']
      else if b = 13 then [CHR 0x5C, CHR ''r'']
      else if b = 9 then [CHR 0x5C, CHR ''t'']
      else if b < 32 \<or> b = 60 \<or> b = 62 \<or> b = 38 then
        [CHR 0x5C, CHR ''u'', CHR ''0'', CHR ''0'', hex_digit (b div 16), hex_digit (b mod 16)]
      else [c])"

text \<open>
  The loop of the encoder over the bytes of the string: an ASCII byte is escaped or
  copied, an ill-formed byte becomes \<^verbatim>\<open>\ufffd\<close>, the line and paragraph separators
  U+2028 and U+2029 are escaped, every other well-formed sequence is copied.
\<close>

function appendString_loop :: "string \<Rightarrow> string" where
  "appendString_loop [] = []"
| "appendString_loop (c # cs) =
     (if byte c < 128 then escape_ascii c @ appendString_loop cs
      else
        (let n = rune_len (c # cs) in
         if n = 0 then [CHR 0x5C, CHR ''u'', CHR ''f'', CHR ''f'', CHR ''f'', CHR ''d'']
                        @ appendString_loop cs
         else if n = 3 \<and> byte c = 226 \<and> byte (cs ! 0) = 128
                 \<and> (byte (cs ! 1) = 168 \<or> byte (cs ! 1) = 169) then
           [CHR 0x5C, CHR ''u'', CHR ''2'', CHR ''0'', CHR ''2'', hex_digit (byte (cs ! 1) mod 16)]
             @ appendString_loop (drop 2 cs)
         else take n (c # cs) @ appendString_loop (drop (n - 1) cs)))"
  by pat_completeness auto
termination
  by (relation "measure length") auto

definition appendString :: "string \<Rightarrow> string" where
  "appendString s = [CHR 0x22] @ appendString_loop s @ [CHR 0x22]"

definition json_Marshal_string :: "string \<Rightarrow> go_error + string" where
  "json_Marshal_string s = Inr (appendString s)"

fun join_comma :: "string list \<Rightarrow> string" where
  "join_comma [] = []"
| "join_comma [x] = x"
| "join_comma (x # y # ys) = x @ '','' @ join_comma (y # ys)"

definition json_Marshal_strings :: "string list option \<Rightarrow> go_error + string" where
  "json_Marshal_strings v =
     (case v of
        None \<Rightarrow> Inr ''null''
      | Some xs \<Rightarrow> Inr (''['' @ join_comma (map appendString xs) @ '']''))"

section \<open>The data source: resources\<close>

text \<open>
  What \<^verbatim>\<open>CallResource\<close> and \<^verbatim>\<open>QueryData\<close> do besides returning a value is written to a
  trace of effects, in program order: the calls of the provider client, the lookup of the GCE
  default project, the lines given to the logger and the responses handed to the sender.
  The \<^verbatim>\<open>context.Context\<close> argument is passed through to the collaborators
  unread and is left out.
\<close>

datatype log_level = LevelWarn | LevelError

record CallResourceRequest =
  Path :: string
  URL :: string

record CallResourceResponse =
  Status :: nat
  Body :: string

definition StatusOK :: nat where "StatusOK = 200"
definition StatusNotFound :: nat where "StatusNotFound = 404"
definition StatusInternalServerError :: nat where "StatusInternalServerError = 500"
definition StatusBadGateway :: nat where "StatusBadGateway = 502"

text \<open>\<^verbatim>\<open>cloudlogging.Query\<close>, the request handed to \<^verbatim>\<open>ListLogs\<close>.\<close>

record Query =
  ProjectID :: string
  Filter :: string
  Limit :: "64 word"
  TimeRange_From :: string
  TimeRange_To :: string

text \<open>
  \<^verbatim>\<open>loggingpb.LogEntry\<close> with the fields the plugin and its tests use. A protobuf timestamp
  is seconds and nanoseconds since the Unix epoch; the message pointer may be nil.
\<close>

datatype LogSeverity =
  DEFAULT | DEBUG | INFO | NOTICE | WARNING | ERROR | CRITICAL | ALERT | EMERGENCY

datatype Payload =
  NoPayload
  | TextPayload string
  | JsonPayload "(string \<times> string) list"
  | ProtoPayload string

record MonitoredResource =
  Type :: string
  Labels :: "(string \<times> string) list"

record Timestamp =
  Seconds :: int
  Nanos :: int

record LogEntry =
  LogName :: string
  Resource :: "MonitoredResource option"
  EntryTimestamp :: "Timestamp option"
  ReceiveTimestamp :: "Timestamp option"
  Severity :: LogSeverity
  InsertId :: string
  Trace :: string
  EntryLabels :: "(string \<times> string) list"
  EntryPayload :: Payload

text \<open>The interface \<^verbatim>\<open>cloudlogging.API\<close>: each method is the answer of the provider.\<close>

record API =
  ListLogs :: "Query \<Rightarrow> LogEntry list option \<times> go_error option"
  TestConnection :: "string \<Rightarrow> go_error option"
  ListProjects :: "string list option \<times> go_error option"
  ListProjectBuckets :: "string \<Rightarrow> string list option \<times> go_error option"
  ListProjectBucketViews :: "string \<Rightarrow> string \<Rightarrow> string list option \<times> go_error option"
  Close :: "go_error option"

record CloudLoggingDatasource =
  client :: API

datatype provider_call =
  Call_ListLogs Query
  | Call_TestConnection string
  | Call_ListProjects
  | Call_ListProjectBuckets string
  | Call_ListProjectBucketViews string string
  | Call_Close

datatype effect =
  Provider provider_call
  | Lookup_GCEDefaultProject
  | Logged log_level string go_error
  | Sent CallResourceResponse

text \<open>
  What the plugin takes from outside the repository for \<^verbatim>\<open>CallResource\<close>: the answer
  of \<^verbatim>\<open>utils.GCEDefaultProject(ctx, "")\<close> and the Unicode case mapping behind
  \<^verbatim>\<open>strings.ToLower\<close>.
\<close>

record runtime =
  GCEDefaultProject :: "string \<times> go_error option"
  unicode_ToLower :: "string \<Rightarrow> string"

definition send ::
  "(CallResourceResponse \<Rightarrow> go_error option) \<Rightarrow> effect list \<Rightarrow> CallResourceResponse
    \<Rightarrow> effect list \<times> go_error option" where
  "send sender fx r = (fx @ [Sent r], sender r)"

definition warn_on :: "string \<Rightarrow> go_error option \<Rightarrow> effect list" where
  "warn_on msg err = (case err of None \<Rightarrow> [] | Some e \<Rightarrow> [Logged LevelWarn msg e])"

text \<open>
  \<^verbatim>\<open>CallResource\<close> (plugin.go). The result is the trace of effects and the value
  returned, which is what \<^verbatim>\<open>sender.Send\<close> returned.
\<close>

definition CallResource ::
  "runtime \<Rightarrow> CloudLoggingDatasource \<Rightarrow> CallResourceRequest
    \<Rightarrow> (CallResourceResponse \<Rightarrow> go_error option) \<Rightarrow> effect list \<times> go_error option" where
  "CallResource rt d req sender =
     (let resource = Path req in
      if resource = ''gceDefaultProject'' then
        (case GCEDefaultProject rt of (proj, err) \<Rightarrow>
           let fx = Lookup_GCEDefaultProject # warn_on ''problem getting GCE default project'' err in
           case json_Marshal_string proj of
             Inl _ \<Rightarrow>
               send sender fx
                 \<lparr>Status = StatusInternalServerError, Body = ''Unable to create response''\<rparr>
           | Inr body \<Rightarrow> send sender fx \<lparr>Status = StatusOK, Body = body\<rparr>)
      else if ToLower (unicode_ToLower rt) resource \<noteq> ''projects'' then
        send sender [] \<lparr>Status = StatusNotFound, Body = ''No such path''\<rparr>
      else
        (case ListProjects (client d) of (projects, err) \<Rightarrow>
           let fx = Provider Call_ListProjects # warn_on ''problem listing projects'' err in
           case json_Marshal_strings projects of
             Inl _ \<Rightarrow>
               send sender fx
                 \<lparr>Status = StatusInternalServerError, Body = ''Unable to create response''\<rparr>
           | Inr body \<Rightarrow> send sender fx \<lparr>Status = StatusOK, Body = body\<rparr>))"

text \<open>The responses handed to the sender and the provider calls made, read off a trace.\<close>

fun responses :: "effect list \<Rightarrow> CallResourceResponse list" where
  "responses [] = []"
| "responses (Sent r # fx) = r # responses fx"
| "responses (_ # fx) = responses fx"

fun provider_calls :: "effect list \<Rightarrow> provider_call list" where
  "provider_calls [] = []"
| "provider_calls (Provider c # fx) = c # provider_calls fx"
| "provider_calls (_ # fx) = provider_calls fx"

fun warnings :: "effect list \<Rightarrow> (string \<times> go_error) list" where
  "warnings [] = []"
| "warnings (Logged LevelWarn m e # fx) = (m, e) # warnings fx"
| "warnings (_ # fx) = warnings fx"

text \<open>
  Equality with \<^verbatim>\<open>projects\<close> ignoring the case of the letters, said without the code's
  lowering function: letter by letter, the small or the capital one.
\<close>

definition equal_ignoring_case_projects :: "string \<Rightarrow> bool" where
  "equal_ignoring_case_projects p =
     list_all2 (\<lambda>c (l, u). c = l \<or> c = u) p (zip ''projects'' ''PROJECTS'')"

section \<open>\<^verbatim>\<open>time.Time\<close> and the layout \<^verbatim>\<open>time.RFC3339\<close>\<close>

text \<open>
  A \<^verbatim>\<open>time.Time\<close> is an instant (seconds since the Unix epoch and nanoseconds within
  the second) and the offset east of UTC, in seconds, that its location has at that instant.
\<close>

record Time =
  unix_sec :: int
  nsec :: nat
  zone_offset :: int

definition isLeap :: "int \<Rightarrow> bool" where
  "isLeap year = (year mod 4 = 0 \<and> (year mod 100 \<noteq> 0 \<or> year mod 400 = 0))"

text \<open>The table \<^verbatim>\<open>daysBefore\<close>: the days of a common year before month \<open>m + 1\<close>.\<close>

definition daysBefore :: "int \<Rightarrow> int" where
  "daysBefore m =
     (if m = 0 then 0 else if m = 1 then 31 else if m = 2 then 59 else if m = 3 then 90
      else if m = 4 then 120 else if m = 5 then 151 else if m = 6 then 181
      else if m = 7 then 212 else if m = 8 then 243 else if m = 9 then 273
      else if m = 10 then 304 else if m = 11 then 334 else 365)"

definition daysIn :: "int \<Rightarrow> int \<Rightarrow> int" where
  "daysIn m year = (if m = 2 \<and> isLeap year then 29 else daysBefore m - daysBefore (m - 1))"

text \<open>
  Days are counted from 0001-01-01, which lies a whole number of 400-year cycles after the
  zero of Go's absolute time, so the cycles below are Go's. Division is the flooring one:
  it agrees with Go's unsigned division on the absolute count.
\<close>

definition unix_epoch_day :: int where
  "unix_epoch_day = 719162"

text \<open>\<^verbatim>\<open>absDate\<close>, first half: the year and the day within the year (from 0).\<close>

definition year_yday :: "int \<Rightarrow> int \<times> int" where
  "year_yday d =
     (let n400 = d div 146097;
          d1 = d - 146097 * n400;
          c = d1 div 36524;
          n100 = c - c div 4;
          d2 = d1 - 36524 * n100;
          n4 = d2 div 1461;
          d3 = d2 - 1461 * n4;
          y = d3 div 365;
          n1 = y - y div 4;
          d4 = d3 - 365 * n1
      in (400 * n400 + 100 * n100 + 4 * n4 + n1 + 1, d4))"

text \<open>\<^verbatim>\<open>absDate\<close>, second half: the month (from 1) and the day of the month (from 1).\<close>

definition month_day :: "int \<Rightarrow> int \<Rightarrow> int \<times> int" where
  "month_day year yday =
     (if isLeap year \<and> yday = 31 + 29 - 1 then (2, 29)
      else
        (let day = (if isLeap year \<and> yday > 31 + 29 - 1 then yday - 1 else yday);
             m = day div 31;
             end = daysBefore (m + 1)
         in if day \<ge> end then (m + 2, day - end + 1)
            else (m + 1, day - daysBefore m + 1)))"

text \<open>\<^verbatim>\<open>daysSinceEpoch\<close> and the day count of \<^verbatim>\<open>time.Date\<close> for a date in range.\<close>

definition daysSinceEpoch :: "int \<Rightarrow> int" where
  "daysSinceEpoch year =
     (let y = year - 1;
          n400 = y div 400;
          y1 = y - 400 * n400;
          n100 = y1 div 100;
          y2 = y1 - 100 * n100;
          n4 = y2 div 4;
          y3 = y2 - 4 * n4
      in 146097 * n400 + 36524 * n100 + 1461 * n4 + 365 * y3)"

definition Date_unix :: "int \<Rightarrow> int \<Rightarrow> int \<Rightarrow> int \<Rightarrow> int \<Rightarrow> int \<Rightarrow> int" where
  "Date_unix year month day hour minute sec =
     (let d = daysSinceEpoch year + daysBefore (month - 1)
              + (if isLeap year \<and> month \<ge> 3 then 1 else 0) + (day - 1)
      in (d - unix_epoch_day) * 86400 + hour * 3600 + minute * 60 + sec)"

text \<open>Go's integer division truncates towards zero.\<close>

definition go_div :: "int \<Rightarrow> int \<Rightarrow> int" where
  "go_div a b = sgn a * sgn b * (\<bar>a\<bar> div \<bar>b\<bar>)"

definition digit :: "int \<Rightarrow> char" where
  "digit n = char_of (48 + n)"

function decimal :: "int \<Rightarrow> string" where
  "decimal u = (if u < 10 then [digit u] else decimal (u div 10) @ [digit (u mod 10)])"
  by pat_completeness auto
termination
  by (relation "measure nat") auto

text \<open>\<^verbatim>\<open>appendInt\<close>: the decimal form, with a sign when negative, zero-padded to \<open>width\<close>.\<close>

definition appendInt :: "int \<Rightarrow> nat \<Rightarrow> string" where
  "appendInt x width =
     (let u = \<bar>x\<bar>; ds = decimal u
      in (if x < 0 then ''-'' else []) @ replicate (width - length ds) (CHR ''0'') @ ds)"

text \<open>\<^verbatim>\<open>t.Format(time.RFC3339)\<close>.\<close>

definition Format_RFC3339 :: "Time \<Rightarrow> string" where
  "Format_RFC3339 t =
     (let offset = zone_offset t;
          abs = unix_sec t + offset;
          (year, yday) = year_yday (abs div 86400 + unix_epoch_day);
          (month, day) = month_day year yday;
          s = abs mod 86400;
          zone = go_div offset 60
      in appendInt year 4 @ ''-'' @ appendInt month 2 @ ''-'' @ appendInt day 2 @ ''T''
         @ appendInt (s div 3600) 2 @ '':'' @ appendInt (s mod 3600 div 60) 2 @ '':''
         @ appendInt (s mod 60) 2
         @ (if offset = 0 then ''Z''
            else (if zone < 0 then ''-'' else ''+'')
                 @ appendInt (\<bar>zone\<bar> div 60) 2 @ '':'' @ appendInt (\<bar>zone\<bar> mod 60) 2))"

text \<open>
  The parser \<^verbatim>\<open>parseRFC3339\<close> that \<^verbatim>\<open>time.Parse\<close> tries first for this layout. \<open>None\<close>
  is its \<^verbatim>\<open>ok = false\<close>.
\<close>

definition isDigit :: "char \<Rightarrow> bool" where
  "isDigit c = (48 \<le> byte c \<and> byte c \<le> 57)"

definition parseUint :: "string \<Rightarrow> int \<Rightarrow> int \<Rightarrow> int option" where
  "parseUint s lo hi =
     (if list_all isDigit s then
        (let x = foldl (\<lambda>x c. x * 10 + (int (byte c) - 48)) 0 s
         in if x < lo \<or> hi < x then None else Some x)
      else None)"

text \<open>
  \<^verbatim>\<open>parseNanoseconds\<close> on the digits after the dot: at most nine digits count, scaled to
  nanoseconds.
\<close>

definition parseNanoseconds :: "string \<Rightarrow> nat" where
  "parseNanoseconds ds =
     (let ds9 = take 9 ds
      in nat (foldl (\<lambda>x c. x * 10 + (int (byte c) - 48)) 0 ds9) * 10 ^ (9 - length ds9))"

definition Parse_RFC3339 :: "string \<Rightarrow> Time option" where
  "Parse_RFC3339 s =
     (if length s < 19 then None
      else
        case parseUint (take 4 s) 0 9999 of None \<Rightarrow> None | Some year \<Rightarrow>
        case parseUint (take 2 (drop 5 s)) 1 12 of None \<Rightarrow> None | Some month \<Rightarrow>
        case parseUint (take 2 (drop 8 s)) 1 (daysIn month year) of None \<Rightarrow> None | Some day \<Rightarrow>
        case parseUint (take 2 (drop 11 s)) 0 23 of None \<Rightarrow> None | Some hour \<Rightarrow>
        case parseUint (take 2 (drop 14 s)) 0 59 of None \<Rightarrow> None | Some minute \<Rightarrow>
        case parseUint (take 2 (drop 17 s)) 0 59 of None \<Rightarrow> None | Some sec \<Rightarrow>
        if \<not> (s ! 4 = CHR ''-'' \<and> s ! 7 = CHR ''-'' \<and> s ! 10 = CHR ''T''
                \<and> s ! 13 = CHR '':'' \<and> s ! 16 = CHR '':'') then None
        else
          (let r = drop 19 s;
               frac = (if length r \<ge> 2 \<and> r ! 0 = CHR ''.'' \<and> isDigit (r ! 1)
                       then takeWhile isDigit (drop 1 r) else []);
               ns = (if frac = [] then 0 else parseNanoseconds frac);
               z = (if frac = [] then r else drop (1 + length frac) r);
               utc = Date_unix year month day hour minute sec
           in if z = ''Z'' then Some \<lparr>unix_sec = utc, nsec = ns, zone_offset = 0\<rparr>
              else if length z \<noteq> 6 then None
              else
                case parseUint (take 2 (drop 1 z)) 0 23 of None \<Rightarrow> None | Some hr \<Rightarrow>
                case parseUint (take 2 (drop 4 z)) 0 59 of None \<Rightarrow> None | Some mm \<Rightarrow>
                if \<not> ((z ! 0 = CHR ''-'' \<or> z ! 0 = CHR ''+'') \<and> z ! 3 = CHR '':'') then None
                else
                  (let zoneOffset = (if z ! 0 = CHR ''-'' then - ((hr * 60 + mm) * 60)
                                     else (hr * 60 + mm) * 60)
                   in Some \<lparr>unix_sec = utc - zoneOffset, nsec = ns, zone_offset = zoneOffset\<rparr>)))"

section \<open>The data source: queries\<close>

text \<open>\<^verbatim>\<open>backend.DataQuery\<close> and \<^verbatim>\<open>backend.QueryDataRequest\<close>, the fields the plugin reads.\<close>

record TimeRange =
  From :: Time
  To :: Time

record DataQuery =
  RefID :: string
  MaxDataPoints :: "64 word"
  QueryTimeRange :: TimeRange
  JSON :: string

record QueryDataRequest =
  Queries :: "DataQuery list"

text \<open>\<^verbatim>\<open>queryModel\<close>: the fields needed to query from Grafana.\<close>

record queryModel =
  QueryText :: string
  QueryProjectID :: string

text \<open>\<^verbatim>\<open>data.Frame\<close>, \<^verbatim>\<open>data.Field\<close> and \<^verbatim>\<open>backend.DataResponse\<close>.\<close>

type_synonym Labels = "string \<rightharpoonup> string"

datatype vector = TimeVector "Time list" | StringVector "string list"

record Field =
  FieldName :: string
  FieldLabels :: "Labels option"
  Values :: vector

record FrameMeta =
  PreferredVisualization :: string

record Frame =
  Name :: string
  Fields :: "Field list"
  Meta :: "FrameMeta option"

record DataResponse =
  Error :: "go_error option"
  Frames :: "Frame list"

record QueryDataResponse =
  Responses :: "string \<rightharpoonup> DataResponse"

definition VisTypeLogs :: string where
  "VisTypeLogs = ''logs''"

text \<open>
  What \<^verbatim>\<open>query\<close> takes from outside the file: \<^verbatim>\<open>json.Unmarshal\<close> into a
  \<^verbatim>\<open>queryModel\<close>, and the two functions of package \<^verbatim>\<open>cloudlogging\<close> that turn a log
  entry into its message and its labels.
\<close>

record externals =
  Unmarshal_queryModel :: "string \<Rightarrow> go_error + queryModel"
  cloudlogging_GetLogEntryMessage :: "LogEntry \<Rightarrow> go_error + string"
  cloudlogging_GetLogLabels :: "LogEntry \<Rightarrow> Labels"

text \<open>
  \<^verbatim>\<open>GetTimestamp().AsTime()\<close>: \<^verbatim>\<open>time.Unix(seconds, nanos).UTC()\<close>, where a nil
  timestamp reads as zero and \<^verbatim>\<open>time.Unix\<close> carries nanoseconds outside one second into
  the seconds.
\<close>

definition AsTime :: "Timestamp option \<Rightarrow> Time" where
  "AsTime ts =
     (let s = (case ts of None \<Rightarrow> 0 | Some x \<Rightarrow> Seconds x);
          n = (case ts of None \<Rightarrow> 0 | Some x \<Rightarrow> Nanos x)
      in \<lparr>unix_sec = s + n div 1000000000, nsec = nat (n mod 1000000000), zone_offset = 0\<rparr>)"

text \<open>
  The loop of \<^verbatim>\<open>query\<close> over the fetched entries: an entry whose message cannot be read
  is logged and skipped, any other appends one frame.
\<close>

fun frames_of :: "externals \<Rightarrow> LogEntry list \<Rightarrow> effect list \<times> Frame list" where
  "frames_of ext [] = ([], [])"
| "frames_of ext (l # logs) =
     (case cloudlogging_GetLogEntryMessage ext l of
        Inl err \<Rightarrow>
          (case frames_of ext logs of (fx, frames) \<Rightarrow>
             (Logged LevelWarn ''failed getting log message'' err # fx, frames))
      | Inr body \<Rightarrow>
          (let labels = cloudlogging_GetLogLabels ext l;
               timestamp = \<lparr>FieldName = ''time'', FieldLabels = None,
                            Values = TimeVector [AsTime (EntryTimestamp l)]\<rparr>;
               content = \<lparr>FieldName = ''content'', FieldLabels = Some labels,
                          Values = StringVector [body]\<rparr>;
               f = \<lparr>Name = InsertId l, Fields = [timestamp, content],
                    Meta = Some \<lparr>PreferredVisualization = VisTypeLogs\<rparr>\<rparr>
           in case frames_of ext logs of (fx, frames) \<Rightarrow> (fx, f # frames)))"

text \<open>
  The request \<^verbatim>\<open>query\<close> compiles for the provider (the struct literal
  \<^verbatim>\<open>clientRequest\<close> of plugin.go).
\<close>

definition clientRequest :: "queryModel \<Rightarrow> DataQuery \<Rightarrow> Query" where
  "clientRequest qm q =
     \<lparr>ProjectID = QueryProjectID qm,
      Filter = QueryText qm,
      Limit = MaxDataPoints q,
      TimeRange_From = Format_RFC3339 (From (QueryTimeRange q)),
      TimeRange_To = Format_RFC3339 (To (QueryTimeRange q))\<rparr>"

text \<open>\<^verbatim>\<open>query\<close> (plugin.go): the trace of effects and the response of one query.\<close>

definition query ::
  "externals \<Rightarrow> CloudLoggingDatasource \<Rightarrow> DataQuery \<Rightarrow> effect list \<times> DataResponse" where
  "query ext d q =
     (case Unmarshal_queryModel ext (JSON q) of
        Inl e \<Rightarrow> ([], \<lparr>Error = Some e, Frames = []\<rparr>)
      | Inr qm \<Rightarrow>
          (case ListLogs (client d) (clientRequest qm q) of
             (logs, Some err) \<Rightarrow>
               ([Provider (Call_ListLogs (clientRequest qm q))],
                \<lparr>Error = Some (''query: '' @ err), Frames = []\<rparr>)
           | (logs, None) \<Rightarrow>
               (case frames_of ext (case logs of None \<Rightarrow> [] | Some ls \<Rightarrow> ls) of
                  (fx, frames) \<Rightarrow>
                    (Provider (Call_ListLogs (clientRequest qm q)) # fx,
                     \<lparr>Error = None, Frames = frames\<rparr>))))"

text \<open>
  Whether the message of an entry can be read, the message and the error, for stating
  what the loop does with each entry.
\<close>

definition decodes :: "externals \<Rightarrow> LogEntry \<Rightarrow> bool" where
  "decodes ext l = (case cloudlogging_GetLogEntryMessage ext l of Inl _ \<Rightarrow> False | Inr _ \<Rightarrow> True)"

definition message_of :: "externals \<Rightarrow> LogEntry \<Rightarrow> string" where
  "message_of ext l = (case cloudlogging_GetLogEntryMessage ext l of Inl _ \<Rightarrow> [] | Inr b \<Rightarrow> b)"

definition decode_error_of :: "externals \<Rightarrow> LogEntry \<Rightarrow> go_error" where
  "decode_error_of ext l = (case cloudlogging_GetLogEntryMessage ext l of Inl e \<Rightarrow> e | Inr _ \<Rightarrow> [])"

text \<open>
  \<^verbatim>\<open>QueryData\<close> (plugin.go): the loop stores each query's response under its
  \<^verbatim>\<open>RefID\<close>; the function returns the response and a nil error.
\<close>

fun query_each ::
  "externals \<Rightarrow> CloudLoggingDatasource \<Rightarrow> DataQuery list
    \<Rightarrow> effect list \<times> (string \<rightharpoonup> DataResponse) \<Rightarrow> effect list \<times> (string \<rightharpoonup> DataResponse)" where
  "query_each ext d [] acc = acc"
| "query_each ext d (q # qs) (fx, response) =
     (case query ext d q of
        (fx', res) \<Rightarrow> query_each ext d qs (fx @ fx', response(RefID q \<mapsto> res)))"

definition QueryData ::
  "externals \<Rightarrow> CloudLoggingDatasource \<Rightarrow> QueryDataRequest
    \<Rightarrow> effect list \<times> QueryDataResponse \<times> go_error option" where
  "QueryData ext d req =
     (case query_each ext d (Queries req) ([], Map.empty) of
        (fx, response) \<Rightarrow> (fx, \<lparr>Responses = response\<rparr>, None))"

section \<open>Labels of a log entry\<close>

text \<open>
  Modelled from the spec: \<^verbatim>\<open>cloudlogging.GetLogLabels\<close> is not among the source files
  (plugin.go calls it and the tests state its result on one entry). The definitions below
  follow the label derivation of the spec's Record Normalizer, clause by clause.
\<close>

text \<open>
  Modelled from the spec: \<^verbatim>\<open>severity_text\<close> is the textual form of the severity enum,
  \<^verbatim>\<open>level_of\<close> its lower-cased form (INFO gives \<^verbatim>\<open>info\<close>).
\<close>

definition severity_text :: "LogSeverity \<Rightarrow> string" where
  "severity_text sev =
     (case sev of
        DEFAULT \<Rightarrow> ''DEFAULT'' | DEBUG \<Rightarrow> ''DEBUG'' | INFO \<Rightarrow> ''INFO'' | NOTICE \<Rightarrow> ''NOTICE''
      | WARNING \<Rightarrow> ''WARNING'' | ERROR \<Rightarrow> ''ERROR'' | CRITICAL \<Rightarrow> ''CRITICAL''
      | ALERT \<Rightarrow> ''ALERT'' | EMERGENCY \<Rightarrow> ''EMERGENCY'')"

definition level_of :: "LogSeverity \<Rightarrow> string" where
  "level_of sev = map lower_byte (severity_text sev)"

text \<open>
  Modelled from the spec: the final path segment of the trace reference, the text after
  the last \<^verbatim>\<open>/\<close> (the whole text when it has none).
\<close>

definition final_segment :: "string \<Rightarrow> string" where
  "final_segment s = rev (takeWhile (\<lambda>c. c \<noteq> CHR ''/'') (rev s))"

text \<open>
  Modelled from the spec: every key of a label map is copied under the namespace
  \<^verbatim>\<open>labels.\<close> with the key itself quoted.
\<close>

definition label_key :: "string \<Rightarrow> string" where
  "label_key k = ''labels.'' @ [CHR 0x22] @ k @ [CHR 0x22]"

fun copy_labels :: "(string \<times> string) list \<Rightarrow> Labels \<Rightarrow> Labels" where
  "copy_labels [] m = m"
| "copy_labels ((k, v) # kvs) m = copy_labels kvs (m(label_key k \<mapsto> v))"

text \<open>
  Modelled from the spec: \<^verbatim>\<open>GetLogLabels\<close>, the label map of one raw record: the copied
  labels of the resource descriptor and of the record, \<^verbatim>\<open>id\<close>, \<^verbatim>\<open>level\<close>,
  \<^verbatim>\<open>resource.type\<close> when a resource descriptor is present, \<^verbatim>\<open>textPayload\<close> when the
  payload is text, and \<^verbatim>\<open>trace\<close> with \<^verbatim>\<open>traceId\<close> when the trace reference is not
  empty.
\<close>

definition GetLogLabels :: "LogEntry \<Rightarrow> Labels" where
  "GetLogLabels entry =
     (let m0 = copy_labels (case Resource entry of None \<Rightarrow> [] | Some r \<Rightarrow> Labels r) Map.empty;
          m1 = copy_labels (EntryLabels entry) m0;
          m2 = m1(''id'' \<mapsto> InsertId entry, ''level'' \<mapsto> level_of (Severity entry));
          m3 = (case Resource entry of None \<Rightarrow> m2 | Some r \<Rightarrow> m2(''resource.type'' \<mapsto> Type r));
          m4 = (case EntryPayload entry of TextPayload t \<Rightarrow> m3(''textPayload'' \<mapsto> t) | _ \<Rightarrow> m3)
      in if Trace entry \<noteq> []
         then m4(''trace'' \<mapsto> Trace entry, ''traceId'' \<mapsto> final_segment (Trace entry))
         else m4)"

section \<open>The scenarios of the repository's tests\<close>

text \<open>The entry, the client and the queries of \<^verbatim>\<open>plugin_test.go\<close>, for the concrete checks.\<close>

definition test_logEntry :: LogEntry where
  "test_logEntry =
     \<lparr>LogName = ''organizations/1234567890/logs/cloudresourcemanager.googleapis.com%2Factivity'',
      Resource = Some \<lparr>Type = ''gce_instance'', Labels = []\<rparr>,
      EntryTimestamp = Some \<lparr>Seconds = 1660920349, Nanos = 373000000\<rparr>,
      ReceiveTimestamp = Some \<lparr>Seconds = 1660920349, Nanos = 373000000\<rparr>,
      Severity = INFO,
      InsertId = ''b6f39be2-b298-44da-9001-1f04e5756fa0'',
      Trace = ''projects/xxx/traces/c0e331eab1515bbcd1b8306029902ff7'',
      EntryLabels = [(''instance_id'', ''unique''), (''custom_label'', ''custom_value'')],
      EntryPayload = TextPayload ''Full log message from this GCE instance''\<rparr>"

definition test_proto_entry :: LogEntry where
  "test_proto_entry =
     test_logEntry\<lparr>InsertId := ''undecodable'', EntryPayload := ProtoPayload ''?''\<rparr>"

definition test_second_entry :: LogEntry where
  "test_second_entry =
     test_logEntry\<lparr>InsertId := ''second'', Trace := [], EntryPayload := TextPayload ''next''\<rparr>"

definition test_client :: API where
  "test_client =
     \<lparr>ListLogs = (\<lambda>q. (Some [test_logEntry, test_proto_entry, test_second_entry], None)),
      TestConnection = (\<lambda>p. None),
      ListProjects = (None, Some ''permission denied''),
      ListProjectBuckets = (\<lambda>p. (Some [''bucket1'', ''bucket2''], None)),
      ListProjectBucketViews = (\<lambda>p b. (Some [''view1'', ''view2''], None)),
      Close = None\<rparr>"

definition test_datasource :: CloudLoggingDatasource where
  "test_datasource = \<lparr>client = test_client\<rparr>"

definition test_runtime :: runtime where
  "test_runtime =
     \<lparr>GCEDefaultProject = ([], Some ''metadata: GCE metadata not defined''),
      unicode_ToLower = (\<lambda>s. s)\<rparr>"

definition test_json :: string where
  "test_json =
     ''{\"projectId\": \"testing\", \"queryText\": \"resource.type = ''
       @ [CHR 0x5C] @ ''\"testing'' @ [CHR 0x5C] @ ''\"\"}''"

definition test_externals :: externals where
  "test_externals =
     \<lparr>Unmarshal_queryModel =
        (\<lambda>s. if s = test_json
              then Inr \<lparr>QueryText = ''resource.type = \"testing\"'', QueryProjectID = ''testing''\<rparr>
              else Inl ''invalid character 'N' looking for beginning of value''),
      cloudlogging_GetLogEntryMessage =
        (\<lambda>l. case EntryPayload l of
                TextPayload t \<Rightarrow> Inr t
              | _ \<Rightarrow> Inl ''unsupported payload''),
      cloudlogging_GetLogLabels = GetLogLabels\<rparr>"

definition test_query :: "string \<Rightarrow> string \<Rightarrow> 64 word \<Rightarrow> DataQuery" where
  "test_query ref js n =
     \<lparr>RefID = ref, MaxDataPoints = n,
      QueryTimeRange =
        \<lparr>From = \<lparr>unix_sec = 1660916749, nsec = 373000000, zone_offset = 0\<rparr>,
         To = \<lparr>unix_sec = 1660920349, nsec = 373000000, zone_offset = 7200\<rparr>\<rparr>,
      JSON = js\<rparr>"

section \<open>Properties of the resource dispatch\<close>

subsection \<open>Lowering and the path \<^verbatim>\<open>projects\<close>\<close>

lemma length8: "length p = 8 \<Longrightarrow> \<exists>a b c d e f g h. p = [a, b, c, d, e, f, g, h]"
  by (auto simp: eval_nat_numeral length_Suc_conv)

lemma byte_inj: "byte a = byte b \<longleftrightarrow> a = b"
  by (simp add: byte_def)

lemma lower_byte_inv:
  assumes "lower_byte c = l"
  shows "c = l \<or> byte c + 32 = byte l"
proof (cases "65 \<le> byte c \<and> byte c \<le> 90")
  case False
  with assms show ?thesis by (simp add: lower_byte_def)
next
  case True
  with assms have l: "l = char_of (byte c + 32)" by (simp add: lower_byte_def)
  from True have "byte l = byte c + 32" unfolding l byte_def by simp
  then show ?thesis by simp
qed

lemma capital:
  assumes "lower_byte c = l" and "byte u + 32 = byte l"
  shows "c = l \<or> c = u"
proof -
  from lower_byte_inv [OF assms(1)] assms(2) have "c = l \<or> byte c = byte u" by auto
  then show ?thesis by (simp add: byte_inj)
qed

lemma lower_letter:
  assumes "c = l \<or> c = u" and "lower_byte l = l" and "lower_byte u = l"
    and "byte l < 128" and "byte u < 128"
  shows "byte c < 128 \<and> lower_byte c = l"
  using assms by auto

lemma projects_lower:
  assumes "equal_ignoring_case_projects p"
  shows "isASCII p \<and> map lower_byte p = ''projects''"
proof -
  from assms have len: "length p = 8"
    by (auto simp: equal_ignoring_case_projects_def dest: list_all2_lengthD)
  then obtain a b c d e f g h where p: "p = [a, b, c, d, e, f, g, h]" using length8 by blast
  from assms p have l:
    "a = CHR ''p'' \<or> a = CHR ''P''" "b = CHR ''r'' \<or> b = CHR ''R''"
    "c = CHR ''o'' \<or> c = CHR ''O''" "d = CHR ''j'' \<or> d = CHR ''J''"
    "e = CHR ''e'' \<or> e = CHR ''E''" "f = CHR ''c'' \<or> f = CHR ''C''"
    "g = CHR ''t'' \<or> g = CHR ''T''" "h = CHR ''s'' \<or> h = CHR ''S''"
    by (simp_all add: equal_ignoring_case_projects_def)
  have "byte a < 128 \<and> lower_byte a = CHR ''p''"
    by (rule lower_letter [OF l(1)]) (simp_all add: lower_byte_def byte_def char_of_eq_iff)
  moreover have "byte b < 128 \<and> lower_byte b = CHR ''r''"
    by (rule lower_letter [OF l(2)]) (simp_all add: lower_byte_def byte_def char_of_eq_iff)
  moreover have "byte c < 128 \<and> lower_byte c = CHR ''o''"
    by (rule lower_letter [OF l(3)]) (simp_all add: lower_byte_def byte_def char_of_eq_iff)
  moreover have "byte d < 128 \<and> lower_byte d = CHR ''j''"
    by (rule lower_letter [OF l(4)]) (simp_all add: lower_byte_def byte_def char_of_eq_iff)
  moreover have "byte e < 128 \<and> lower_byte e = CHR ''e''"
    by (rule lower_letter [OF l(5)]) (simp_all add: lower_byte_def byte_def char_of_eq_iff)
  moreover have "byte f < 128 \<and> lower_byte f = CHR ''c''"
    by (rule lower_letter [OF l(6)]) (simp_all add: lower_byte_def byte_def char_of_eq_iff)
  moreover have "byte g < 128 \<and> lower_byte g = CHR ''t''"
    by (rule lower_letter [OF l(7)]) (simp_all add: lower_byte_def byte_def char_of_eq_iff)
  moreover have "byte h < 128 \<and> lower_byte h = CHR ''s''"
    by (rule lower_letter [OF l(8)]) (simp_all add: lower_byte_def byte_def char_of_eq_iff)
  ultimately show ?thesis unfolding p by (simp add: isASCII_def)
qed

lemma lower_projects_inv:
  assumes "map lower_byte p = ''projects''"
  shows "equal_ignoring_case_projects p"
proof -
  from assms have "length (map lower_byte p) = 8" by simp
  then have "length p = 8" by simp
  then obtain a b c d e f g h where p: "p = [a, b, c, d, e, f, g, h]" using length8 by blast
  from assms p have l: "lower_byte a = CHR ''p''" "lower_byte b = CHR ''r''"
    "lower_byte c = CHR ''o''" "lower_byte d = CHR ''j''" "lower_byte e = CHR ''e''"
    "lower_byte f = CHR ''c''" "lower_byte g = CHR ''t''" "lower_byte h = CHR ''s''"
    by simp_all
  have "a = CHR ''p'' \<or> a = CHR ''P''" by (rule capital [OF l(1)]) (simp add: byte_def)
  moreover have "b = CHR ''r'' \<or> b = CHR ''R''" by (rule capital [OF l(2)]) (simp add: byte_def)
  moreover have "c = CHR ''o'' \<or> c = CHR ''O''" by (rule capital [OF l(3)]) (simp add: byte_def)
  moreover have "d = CHR ''j'' \<or> d = CHR ''J''" by (rule capital [OF l(4)]) (simp add: byte_def)
  moreover have "e = CHR ''e'' \<or> e = CHR ''E''" by (rule capital [OF l(5)]) (simp add: byte_def)
  moreover have "f = CHR ''c'' \<or> f = CHR ''C''" by (rule capital [OF l(6)]) (simp add: byte_def)
  moreover have "g = CHR ''t'' \<or> g = CHR ''T''" by (rule capital [OF l(7)]) (simp add: byte_def)
  moreover have "h = CHR ''s'' \<or> h = CHR ''S''" by (rule capital [OF l(8)]) (simp add: byte_def)
  ultimately show ?thesis
    unfolding p by (simp add: equal_ignoring_case_projects_def)
qed

lemma ToLower_ascii_literal:
  "isASCII s \<Longrightarrow> ToLower u s = map lower_byte s"
  by (simp add: ToLower_def)

text \<open>The encoders of strings and string slices never fail.\<close>

lemma json_Marshal_string_total: "json_Marshal_string s = Inr (appendString s)"
  by (simp add: json_Marshal_string_def)

lemma json_Marshal_strings_total: "\<exists>body. json_Marshal_strings v = Inr body"
  by (simp add: json_Marshal_strings_def split: option.splits)

subsection \<open>Unknown paths and the path \<^verbatim>\<open>projects\<close>\<close>

text \<open>
  Claim C7. A path that is neither \<^verbatim>\<open>gceDefaultProject\<close> nor lowers to \<^verbatim>\<open>projects\<close> is
  answered with status not-found and the plain body \<^verbatim>\<open>No such path\<close>, and nothing else
  happens (no provider call, no log line). A path equal to \<^verbatim>\<open>projects\<close> ignoring case is
  recognised and the list-scopes operation \<^verbatim>\<open>ListProjects\<close> is called, once. For a path
  of ASCII bytes, lowering to \<^verbatim>\<open>projects\<close> is the same as being equal to it ignoring case.
\<close>

theorem CallResource_unknown_path:
  "(Path req \<noteq> ''gceDefaultProject'' \<and> ToLower (unicode_ToLower rt) (Path req) \<noteq> ''projects''
      \<longrightarrow> CallResource rt d req sender =
            ([Sent \<lparr>Status = StatusNotFound, Body = ''No such path''\<rparr>],
             sender \<lparr>Status = StatusNotFound, Body = ''No such path''\<rparr>))
   \<and> (equal_ignoring_case_projects (Path req)
      \<longrightarrow> ToLower (unicode_ToLower rt) (Path req) = ''projects''
          \<and> provider_calls (fst (CallResource rt d req sender)) = [Call_ListProjects])
   \<and> (isASCII (Path req) \<and> \<not> equal_ignoring_case_projects (Path req)
      \<longrightarrow> ToLower (unicode_ToLower rt) (Path req) \<noteq> ''projects'')"
proof (intro conjI impI)
  assume "Path req \<noteq> ''gceDefaultProject'' \<and> ToLower (unicode_ToLower rt) (Path req) \<noteq> ''projects''"
  then show "CallResource rt d req sender =
            ([Sent \<lparr>Status = StatusNotFound, Body = ''No such path''\<rparr>],
             sender \<lparr>Status = StatusNotFound, Body = ''No such path''\<rparr>)"
    by (simp add: CallResource_def send_def)
next
  assume eq: "equal_ignoring_case_projects (Path req)"
  then show low: "ToLower (unicode_ToLower rt) (Path req) = ''projects''"
    using projects_lower by (simp add: ToLower_def)
  from eq have ne: "Path req \<noteq> ''gceDefaultProject''"
    by (auto simp: equal_ignoring_case_projects_def dest: list_all2_lengthD)
  show "provider_calls (fst (CallResource rt d req sender)) = [Call_ListProjects]"
    using low ne
    by (simp add: CallResource_def send_def warn_on_def json_Marshal_strings_def
        split: prod.splits option.splits)
next
  assume "isASCII (Path req) \<and> \<not> equal_ignoring_case_projects (Path req)"
  then show "ToLower (unicode_ToLower rt) (Path req) \<noteq> ''projects''"
    using lower_projects_inv by (auto simp: ToLower_def)
qed

theorem CallResource_unknown_path_witness:
  "CallResource test_runtime test_datasource
      \<lparr>Path = ''unknown'', URL = ''http://localhost/unknown''\<rparr> (\<lambda>r. None)
     = ([Sent \<lparr>Status = 404, Body = ''No such path''\<rparr>], None)
   \<and> provider_calls (fst (CallResource test_runtime test_datasource
        \<lparr>Path = ''Projects'', URL = ''http://localhost/Projects''\<rparr> (\<lambda>r. None)))
     = [Call_ListProjects]
   \<and> ToLower (unicode_ToLower test_runtime) ''unknown'' \<noteq> ''projects''"
proof -
  have a: "isASCII ''unknown''" and b: "\<not> equal_ignoring_case_projects ''unknown''"
    and c: "equal_ignoring_case_projects ''Projects''"
    by (simp_all add: isASCII_def byte_def equal_ignoring_case_projects_def)
  have low: "ToLower (unicode_ToLower test_runtime) ''unknown'' \<noteq> ''projects''"
    using CallResource_unknown_path
      [of "\<lparr>Path = ''unknown'', URL = ''http://localhost/unknown''\<rparr>" test_runtime] a b
    by simp
  then show ?thesis
    using CallResource_unknown_path
      [of "\<lparr>Path = ''unknown'', URL = ''http://localhost/unknown''\<rparr>" test_runtime
        test_datasource "\<lambda>r. None"]
      CallResource_unknown_path
      [of "\<lparr>Path = ''Projects'', URL = ''http://localhost/Projects''\<rparr>" test_runtime
        test_datasource "\<lambda>r. None"] c
    by (simp add: StatusNotFound_def)
qed

subsection \<open>The legacy path \<^verbatim>\<open>gceDefaultProject\<close>\<close>

text \<open>
  Claim C10. On the path \<^verbatim>\<open>gceDefaultProject\<close> a failed lookup of the default project
  is logged as a warning and nothing more: the response has status ok and its body is the
  JSON encoding of the project string the lookup returned (the empty string included).
  The path is matched as an exact string: an ASCII path that differs from it only in the
  case of its letters is answered not-found.
\<close>

theorem CallResource_gceDefaultProject_failure:
  "(Path req = ''gceDefaultProject'' \<and> GCEDefaultProject rt = (proj, Some e)
      \<longrightarrow> json_Marshal_string proj = Inr (appendString proj)
          \<and> CallResource rt d req sender =
              ([Lookup_GCEDefaultProject,
                Logged LevelWarn ''problem getting GCE default project'' e,
                Sent \<lparr>Status = StatusOK, Body = appendString proj\<rparr>],
               sender \<lparr>Status = StatusOK, Body = appendString proj\<rparr>))
   \<and> (Path req \<noteq> ''gceDefaultProject'' \<and> isASCII (Path req)
        \<and> map lower_byte (Path req) = map lower_byte ''gceDefaultProject''
      \<longrightarrow> responses (fst (CallResource rt d req sender)) =
            [\<lparr>Status = StatusNotFound, Body = ''No such path''\<rparr>])"
proof (intro conjI impI)
  assume "Path req = ''gceDefaultProject'' \<and> GCEDefaultProject rt = (proj, Some e)"
  then show "CallResource rt d req sender =
              ([Lookup_GCEDefaultProject,
                Logged LevelWarn ''problem getting GCE default project'' e,
                Sent \<lparr>Status = StatusOK, Body = appendString proj\<rparr>],
               sender \<lparr>Status = StatusOK, Body = appendString proj\<rparr>)"
    by (simp add: CallResource_def send_def warn_on_def json_Marshal_string_def)
next
  show "json_Marshal_string proj = Inr (appendString proj)"
    by (rule json_Marshal_string_total)
next
  assume h: "Path req \<noteq> ''gceDefaultProject'' \<and> isASCII (Path req)
        \<and> map lower_byte (Path req) = map lower_byte ''gceDefaultProject''"
  then have "length (ToLower (unicode_ToLower rt) (Path req)) = 17"
    by (simp add: ToLower_def)
  then have "ToLower (unicode_ToLower rt) (Path req) \<noteq> ''projects''"
    by auto
  with h show "responses (fst (CallResource rt d req sender)) =
            [\<lparr>Status = StatusNotFound, Body = ''No such path''\<rparr>]"
    by (simp add: CallResource_def send_def)
qed


theorem CallResource_gceDefaultProject_failure_witness:
  "CallResource test_runtime test_datasource
      \<lparr>Path = ''gceDefaultProject'', URL = ''http://localhost/gceDefaultProject''\<rparr> (\<lambda>r. None)
     = ([Lookup_GCEDefaultProject,
         Logged LevelWarn ''problem getting GCE default project''
           ''metadata: GCE metadata not defined'',
         Sent \<lparr>Status = 200, Body = [CHR 0x22, CHR 0x22]\<rparr>], None)
   \<and> responses (fst (CallResource test_runtime test_datasource
        \<lparr>Path = ''GCEDefaultProject'', URL = ''http://localhost/GCEDefaultProject''\<rparr> (\<lambda>r. None)))
     = [\<lparr>Status = 404, Body = ''No such path''\<rparr>]"
proof -
  let ?r1 = "\<lparr>Path = ''gceDefaultProject'', URL = ''http://localhost/gceDefaultProject''\<rparr>"
  let ?r2 = "\<lparr>Path = ''GCEDefaultProject'', URL = ''http://localhost/GCEDefaultProject''\<rparr>"
  have h1: "Path ?r1 = ''gceDefaultProject''
      \<and> GCEDefaultProject test_runtime = ([], Some ''metadata: GCE metadata not defined'')"
    by (simp add: test_runtime_def)
  have low: "map lower_byte ''GCEDefaultProject'' = map lower_byte ''gceDefaultProject''"
    by (simp add: lower_byte_def byte_def char_of_eq_iff)
  have h2: "Path ?r2 \<noteq> ''gceDefaultProject'' \<and> isASCII (Path ?r2)
      \<and> map lower_byte (Path ?r2) = map lower_byte ''gceDefaultProject''"
    using low by (simp add: isASCII_def byte_def)
  have e: "appendString [] = [CHR 0x22, CHR 0x22]"
    by (simp add: appendString_def)
  from h1 h2 e show ?thesis
    using CallResource_gceDefaultProject_failure
        [of ?r1 test_runtime "[]" "''metadata: GCE metadata not defined''" test_datasource
          "\<lambda>r. None"]
      CallResource_gceDefaultProject_failure
        [of ?r2 test_runtime "[]" "''metadata: GCE metadata not defined''" test_datasource
          "\<lambda>r. None"]
    by (simp only: StatusOK_def StatusNotFound_def simp_thms)
qed

subsection \<open>The paths \<^verbatim>\<open>logbuckets\<close> and \<^verbatim>\<open>logviews\<close>, and a failing provider\<close>

text \<open>
  Claim C1, at the request of the repository's test: the paths \<^verbatim>\<open>logbuckets\<close> and
  \<^verbatim>\<open>logviews\<close> with both query parameters are answered not-found with the body
  \<^verbatim>\<open>No such path\<close>, and the provider is not called, whatever the client would return.
\<close>

theorem CallResource_logbuckets_logviews:
  "CallResource rt d
      \<lparr>Path = ''logbuckets'',
       URL = ''http://localhost/logbuckets?ProjectId=test-project&BucketId=test-bucket''\<rparr> sender
     = ([Sent \<lparr>Status = 404, Body = ''No such path''\<rparr>],
        sender \<lparr>Status = 404, Body = ''No such path''\<rparr>)
   \<and> CallResource rt d
      \<lparr>Path = ''logviews'',
       URL = ''http://localhost/logviews?ProjectId=test-project&BucketId=test-bucket''\<rparr> sender
     = ([Sent \<lparr>Status = 404, Body = ''No such path''\<rparr>],
        sender \<lparr>Status = 404, Body = ''No such path''\<rparr>)"
  by (simp add: CallResource_def send_def ToLower_def isASCII_def lower_byte_def byte_def
      StatusNotFound_def)

text \<open>
  Claim C2, at the request of the repository's test: when \<^verbatim>\<open>ListProjects\<close> fails with
  \<^verbatim>\<open>permission denied\<close> (and a nil list), the path \<^verbatim>\<open>projects\<close> logs the error and
  answers with status ok (200, not 502) and the body \<^verbatim>\<open>null\<close>.
\<close>

theorem CallResource_projects_provider_error:
  "CallResource rt \<lparr>client = c\<lparr>ListProjects := (None, Some ''permission denied'')\<rparr>\<rparr>
      \<lparr>Path = ''projects'', URL = ''http://localhost/projects''\<rparr> sender
     = ([Provider Call_ListProjects,
         Logged LevelWarn ''problem listing projects'' ''permission denied'',
         Sent \<lparr>Status = 200, Body = ''null''\<rparr>],
        sender \<lparr>Status = 200, Body = ''null''\<rparr>)
   \<and> StatusBadGateway = 502"
  by (simp add: CallResource_def send_def warn_on_def ToLower_def isASCII_def lower_byte_def
      byte_def json_Marshal_strings_def StatusOK_def StatusBadGateway_def)

section \<open>Properties of the query pipeline\<close>

subsection \<open>The loop over the fetched entries\<close>

lemma frames_of_frames:
  "snd (frames_of ext logs) =
     map (\<lambda>l. \<lparr>Name = InsertId l,
                Fields = [\<lparr>FieldName = ''time'', FieldLabels = None,
                            Values = TimeVector [AsTime (EntryTimestamp l)]\<rparr>,
                          \<lparr>FieldName = ''content'',
                            FieldLabels = Some (cloudlogging_GetLogLabels ext l),
                            Values = StringVector [message_of ext l]\<rparr>],
                Meta = Some \<lparr>PreferredVisualization = ''logs''\<rparr>\<rparr>)
         (filter (decodes ext) logs)"
  by (induction logs)
    (auto simp: decodes_def message_of_def VisTypeLogs_def split: sum.splits prod.splits)

lemma frames_of_effects:
  "fst (frames_of ext logs) =
     map (\<lambda>l. Logged LevelWarn ''failed getting log message'' (decode_error_of ext l))
         (filter (\<lambda>l. \<not> decodes ext l) logs)"
  by (induction logs)
    (auto simp: decodes_def decode_error_of_def split: sum.splits prod.splits)

lemma warnings_map_Logged:
  "warnings (map (\<lambda>l. Logged LevelWarn m (f l)) ls) = map (\<lambda>l. (m, f l)) ls"
  by (induction ls) simp_all

lemma provider_calls_map_Logged:
  "provider_calls (map (\<lambda>l. Logged lv m (f l)) ls) = []"
  by (induction ls) simp_all

lemma query_unfold:
  assumes "Unmarshal_queryModel ext (JSON q) = Inr qm"
    and "ListLogs (client d) (clientRequest qm q) = (logs, None)"
  shows "query ext d q =
     (Provider (Call_ListLogs (clientRequest qm q))
        # fst (frames_of ext (case logs of None \<Rightarrow> [] | Some ls \<Rightarrow> ls)),
      \<lparr>Error = None, Frames = snd (frames_of ext (case logs of None \<Rightarrow> [] | Some ls \<Rightarrow> ls))\<rparr>)"
  using assms by (simp add: query_def split: prod.splits)

text \<open>
  Claim C3. When the query's JSON is read and the provider returns the entries \<open>logs\<close>,
  the response holds, in the provider's order, one frame for each entry whose message can
  be read and none for the others: the frame is named by the entry's insert id and has
  exactly two fields of one value each, \<^verbatim>\<open>time\<close> with the entry's own timestamp (not the
  receive timestamp) and \<^verbatim>\<open>content\<close> with the message, the label map attached to the
  content field. Each entry whose message cannot be read gives one warning, in order, and
  the loop goes on; the response carries no error.
\<close>

theorem query_one_frame_per_decoded_entry:
  assumes "Unmarshal_queryModel ext (JSON q) = Inr qm"
    and "ListLogs (client d) (clientRequest qm q) = (Some logs, None)"
  shows "Frames (snd (query ext d q)) =
           map (\<lambda>l. \<lparr>Name = InsertId l,
                      Fields = [\<lparr>FieldName = ''time'', FieldLabels = None,
                                  Values = TimeVector [AsTime (EntryTimestamp l)]\<rparr>,
                                \<lparr>FieldName = ''content'',
                                  FieldLabels = Some (cloudlogging_GetLogLabels ext l),
                                  Values = StringVector [message_of ext l]\<rparr>],
                      Meta = Some \<lparr>PreferredVisualization = ''logs''\<rparr>\<rparr>)
               (filter (decodes ext) logs)
       \<and> warnings (fst (query ext d q)) =
           map (\<lambda>l. (''failed getting log message'', decode_error_of ext l))
               (filter (\<lambda>l. \<not> decodes ext l) logs)
       \<and> Error (snd (query ext d q)) = None"
  using query_unfold [OF assms]
  by (simp add: frames_of_frames frames_of_effects warnings_map_Logged)

theorem query_one_frame_per_decoded_entry_witness:
  "map Name (Frames (snd (query test_externals test_datasource (test_query ''A'' test_json 20))))
     = [''b6f39be2-b298-44da-9001-1f04e5756fa0'', ''second'']
   \<and> map (\<lambda>f. map FieldName (Fields f))
        (Frames (snd (query test_externals test_datasource (test_query ''A'' test_json 20))))
     = [[''time'', ''content''], [''time'', ''content'']]
   \<and> warnings (fst (query test_externals test_datasource (test_query ''A'' test_json 20)))
     = [(''failed getting log message'', ''unsupported payload'')]"
proof -
  let ?q = "test_query ''A'' test_json 20"
  let ?qm = "\<lparr>QueryText = ''resource.type = \"testing\"'', QueryProjectID = ''testing''\<rparr>"
  have u: "Unmarshal_queryModel test_externals (JSON ?q) = Inr ?qm"
    by (simp add: test_externals_def test_query_def)
  have l: "ListLogs (client test_datasource) (clientRequest ?qm ?q)
      = (Some [test_logEntry, test_proto_entry, test_second_entry], None)"
    by (simp add: test_datasource_def test_client_def)
  have d: "decodes test_externals test_logEntry" "\<not> decodes test_externals test_proto_entry"
    "decodes test_externals test_second_entry"
    by (simp_all add: decodes_def test_externals_def test_logEntry_def test_proto_entry_def
        test_second_entry_def)
  have e: "decode_error_of test_externals test_proto_entry = ''unsupported payload''"
    by (simp add: decode_error_of_def test_externals_def test_logEntry_def test_proto_entry_def)
  have i: "InsertId test_logEntry = ''b6f39be2-b298-44da-9001-1f04e5756fa0''"
    "InsertId test_second_entry = ''second''"
    by (simp_all add: test_logEntry_def test_second_entry_def)
  show ?thesis
    using query_one_frame_per_decoded_entry [OF u l] d e i by simp
qed

subsection \<open>The record limit\<close>

text \<open>
  Claim C8. The compiled request carries the query's \<^verbatim>\<open>MaxDataPoints\<close> as its limit,
  whatever the value (zero and negative values included: no default is put in), and that
  request is the one handed to the provider's \<^verbatim>\<open>ListLogs\<close>, the only provider call made.
\<close>

theorem query_limit_passed_unchanged:
  "Limit (clientRequest qm q) = MaxDataPoints q
   \<and> (Unmarshal_queryModel ext (JSON q) = Inr qm
        \<longrightarrow> provider_calls (fst (query ext d q)) = [Call_ListLogs (clientRequest qm q)]
          \<and> map (\<lambda>c. case c of Call_ListLogs r \<Rightarrow> Limit r | _ \<Rightarrow> 0)
                (provider_calls (fst (query ext d q))) = [MaxDataPoints q])"
proof (intro conjI impI)
  show "Limit (clientRequest qm q) = MaxDataPoints q"
    by (simp add: clientRequest_def)
next
  assume u: "Unmarshal_queryModel ext (JSON q) = Inr qm"
  obtain logs err where l: "ListLogs (client d) (clientRequest qm q) = (logs, err)"
    by (cases "ListLogs (client d) (clientRequest qm q)")
  show c: "provider_calls (fst (query ext d q)) = [Call_ListLogs (clientRequest qm q)]"
  proof (cases err)
    case None
    with u l show ?thesis
      by (simp add: query_unfold frames_of_effects provider_calls_map_Logged)
  next
    case (Some e)
    with u l show ?thesis by (simp add: query_def)
  qed
  show "map (\<lambda>c. case c of Call_ListLogs r \<Rightarrow> Limit r | _ \<Rightarrow> 0)
          (provider_calls (fst (query ext d q))) = [MaxDataPoints q]"
    unfolding c by (simp add: clientRequest_def)
qed

theorem query_limit_passed_unchanged_witness:
  "map (\<lambda>c. case c of Call_ListLogs r \<Rightarrow> Limit r | _ \<Rightarrow> 0)
     (provider_calls (fst (query test_externals test_datasource (test_query ''A'' test_json 0))))
     = [0]
   \<and> map (\<lambda>c. case c of Call_ListLogs r \<Rightarrow> Limit r | _ \<Rightarrow> 0)
     (provider_calls (fst (query test_externals test_datasource (test_query ''A'' test_json (- 1)))))
     = [- 1]"
proof -
  let ?qm = "\<lparr>QueryText = ''resource.type = \"testing\"'', QueryProjectID = ''testing''\<rparr>"
  have u: "Unmarshal_queryModel test_externals (JSON (test_query ''A'' test_json n)) = Inr ?qm"
    for n
    by (simp add: test_externals_def test_query_def)
  have m: "MaxDataPoints (test_query ''A'' test_json n) = n" for n
    by (simp add: test_query_def)
  show ?thesis
    using query_limit_passed_unchanged
        [of ?qm "test_query ''A'' test_json 0" test_externals test_datasource]
      query_limit_passed_unchanged
        [of ?qm "test_query ''A'' test_json (- 1)" test_externals test_datasource]
      u m by simp
qed

subsection \<open>The batch of queries\<close>

lemma query_each_responses:
  "snd (query_each ext d qs (fx, m)) =
     m ++ map_of (rev (map (\<lambda>q. (RefID q, snd (query ext d q))) qs))"
proof (induction qs arbitrary: fx m)
  case Nil
  then show ?case by simp
next
  case (Cons q qs)
  obtain fx' res where r: "query ext d q = (fx', res)" by (cases "query ext d q")
  have "m(RefID q \<mapsto> res) = m ++ [RefID q \<mapsto> res]" by simp
  then show ?case
    using Cons [of "fx @ fx'" "m(RefID q \<mapsto> res)"] r
    by (simp only: query_each.simps prod.case list.map rev.simps map_of_append snd_conv
        map_add_assoc map_of.simps map_add_empty fun_upd_apply)
      (simp add: map_add_def fun_eq_iff split: option.splits)
qed

lemma map_of_rev_last:
  "map_of (rev (map (\<lambda>q. (f q, g q)) qs)) k =
     (if k \<in> f ` set qs then Some (g (last (filter (\<lambda>q. f q = k) qs))) else None)"
proof (induction qs rule: rev_induct)
  case Nil
  then show ?case by simp
next
  case (snoc q qs)
  then show ?case by (auto simp: image_iff)
qed

lemma filter_distinct_key:
  "distinct (map f xs) \<Longrightarrow> x \<in> set xs \<Longrightarrow> filter (\<lambda>y. f y = f x) xs = [x]"
proof (induction xs)
  case Nil
  then show ?case by simp
next
  case (Cons a xs)
  show ?case
  proof (cases "a = x")
    case True
    from Cons.prems(1) True have "f x \<notin> f ` set xs" by simp
    then have "\<forall>y \<in> set xs. f y \<noteq> f x" by (metis imageI)
    then have "filter (\<lambda>y. f y = f x) xs = []" by (simp add: filter_empty_conv)
    with True show ?thesis by simp
  next
    case False
    with Cons.prems have xin: "x \<in> set xs" by simp
    from Cons.prems(1) have "f a \<notin> f ` set xs" by simp
    with xin have "f a \<noteq> f x" by (metis imageI)
    with Cons.IH Cons.prems(1) xin show ?thesis by simp
  qed
qed

lemma QueryData_responses:
  "Responses (fst (snd (QueryData ext d req))) k =
     (if k \<in> RefID ` set (Queries req)
      then Some (snd (query ext d (last (filter (\<lambda>q. RefID q = k) (Queries req)))))
      else None)"
proof -
  obtain fx m where e: "query_each ext d (Queries req) ([], Map.empty) = (fx, m)"
    by (cases "query_each ext d (Queries req) ([], Map.empty)")
  have "m = snd (query_each ext d (Queries req) ([], Map.empty))" using e by simp
  also have "\<dots> = map_of (rev (map (\<lambda>q. (RefID q, snd (query ext d q))) (Queries req)))"
    by (simp add: query_each_responses)
  finally have "m k = map_of (rev (map (\<lambda>q. (RefID q, snd (query ext d q))) (Queries req))) k"
    by simp
  then show ?thesis
    using e by (simp add: QueryData_def map_of_rev_last)
qed

lemma QueryData_dom:
  "dom (Responses (fst (snd (QueryData ext d req)))) = RefID ` set (Queries req)"
  by (auto simp: dom_def QueryData_responses)

lemma QueryData_error: "snd (snd (QueryData ext d req)) = None"
  by (simp add: QueryData_def split: prod.splits)

text \<open>
  Claim C9. \<^verbatim>\<open>QueryData\<close> always returns a nil error. The keys of its response map are
  exactly the \<^verbatim>\<open>RefID\<close>s that occur in the batch, and under each key stands the response
  of the last query of the batch with that \<^verbatim>\<open>RefID\<close>: an earlier query sharing it is
  overwritten.
\<close>

theorem QueryData_last_query_per_RefID:
  "snd (snd (QueryData ext d req)) = None
   \<and> dom (Responses (fst (snd (QueryData ext d req)))) = RefID ` set (Queries req)
   \<and> (\<forall>q \<in> set (Queries req).
        Responses (fst (snd (QueryData ext d req))) (RefID q) =
          Some (snd (query ext d (last (filter (\<lambda>q'. RefID q' = RefID q) (Queries req))))))"
  by (simp add: QueryData_error QueryData_dom QueryData_responses)

theorem QueryData_last_query_per_RefID_witness:
  "dom (Responses (fst (snd (QueryData test_externals test_datasource
        \<lparr>Queries = [test_query ''A'' test_json 20, test_query ''A'' ''Not JSON'' 20]\<rparr>))))
     = {''A''}
   \<and> Responses (fst (snd (QueryData test_externals test_datasource
        \<lparr>Queries = [test_query ''A'' test_json 20, test_query ''A'' ''Not JSON'' 20]\<rparr>))) ''A''
     = Some \<lparr>Error = Some ''invalid character 'N' looking for beginning of value'',
              Frames = []\<rparr>"
proof -
  let ?req = "\<lparr>Queries = [test_query ''A'' test_json 20, test_query ''A'' ''Not JSON'' 20]\<rparr>"
  have r: "RefID (test_query ''A'' js n) = ''A''" for js n
    by (simp add: test_query_def)
  have n: "''Not JSON'' \<noteq> test_json"
    by (simp add: test_json_def)
  have q: "snd (query test_externals test_datasource (test_query ''A'' ''Not JSON'' 20))
      = \<lparr>Error = Some ''invalid character 'N' looking for beginning of value'', Frames = []\<rparr>"
    using n by (simp add: query_def test_externals_def test_query_def)
  have "test_query ''A'' ''Not JSON'' 20 \<in> set (Queries ?req)" by simp
  then show ?thesis
    using QueryData_last_query_per_RefID [of test_externals test_datasource ?req] r q
    by simp
qed

text \<open>
  Claim C5, as the code has it. For a batch whose \<^verbatim>\<open>RefID\<close>s are pairwise distinct, the
  response map has exactly as many entries as the batch has queries, and the entry of each
  query is the response of that query alone (so no query changes another's response); a
  query whose JSON cannot be read gets a response with that error and no frames. The empty
  batch gives the empty map and a nil error.
\<close>

theorem QueryData_one_response_per_query:
  "(distinct (map RefID (Queries req)) \<longrightarrow>
      card (dom (Responses (fst (snd (QueryData ext d req))))) = length (Queries req)
      \<and> (\<forall>q \<in> set (Queries req).
            Responses (fst (snd (QueryData ext d req))) (RefID q) = Some (snd (query ext d q))))
   \<and> (\<forall>e. Unmarshal_queryModel ext (JSON q) = Inl e \<longrightarrow>
          query ext d q = ([], \<lparr>Error = Some e, Frames = []\<rparr>))
   \<and> snd (snd (QueryData ext d req)) = None
   \<and> (Queries req = [] \<longrightarrow> Responses (fst (snd (QueryData ext d req))) = Map.empty)"
proof (intro conjI impI allI ballI)
  assume dist: "distinct (map RefID (Queries req))"
  show "card (dom (Responses (fst (snd (QueryData ext d req))))) = length (Queries req)"
    using dist distinct_card [of "map RefID (Queries req)"] by (simp add: QueryData_dom)
  fix q assume q: "q \<in> set (Queries req)"
  have "filter (\<lambda>q'. RefID q' = RefID q) (Queries req) = [q]"
    using dist q by (rule filter_distinct_key)
  with q show "Responses (fst (snd (QueryData ext d req))) (RefID q) = Some (snd (query ext d q))"
    by (simp add: QueryData_responses)
next
  fix e assume "Unmarshal_queryModel ext (JSON q) = Inl e"
  then show "query ext d q = ([], \<lparr>Error = Some e, Frames = []\<rparr>)"
    by (simp add: query_def)
next
  show "snd (snd (QueryData ext d req)) = None" by (rule QueryData_error)
next
  assume "Queries req = []"
  then show "Responses (fst (snd (QueryData ext d req))) = Map.empty"
    by (simp add: QueryData_def)
qed

theorem QueryData_one_response_per_query_witness:
  "card (dom (Responses (fst (snd (QueryData test_externals test_datasource
        \<lparr>Queries = [test_query ''A'' test_json 20, test_query ''B'' ''Not JSON'' 20]\<rparr>)))))
     = 2
   \<and> Responses (fst (snd (QueryData test_externals test_datasource
        \<lparr>Queries = [test_query ''A'' test_json 20, test_query ''B'' ''Not JSON'' 20]\<rparr>))) ''B''
     = Some \<lparr>Error = Some ''invalid character 'N' looking for beginning of value'',
              Frames = []\<rparr>
   \<and> Responses (fst (snd (QueryData test_externals test_datasource \<lparr>Queries = []\<rparr>)))
     = Map.empty"
proof -
  let ?req = "\<lparr>Queries = [test_query ''A'' test_json 20, test_query ''B'' ''Not JSON'' 20]\<rparr>"
  let ?qb = "test_query ''B'' ''Not JSON'' 20"
  have r: "RefID (test_query k js n) = k" for k js n
    by (simp add: test_query_def)
  have dist: "distinct (map RefID (Queries ?req))"
    by (simp add: r)
  have n: "''Not JSON'' \<noteq> test_json"
    by (simp add: test_json_def)
  have u: "Unmarshal_queryModel test_externals (JSON ?qb)
      = Inl ''invalid character 'N' looking for beginning of value''"
    using n by (simp add: test_externals_def test_query_def)
  have mem: "?qb \<in> set (Queries ?req)" by simp
  have e: "Queries \<lparr>Queries = []\<rparr> = []" by simp
  show ?thesis
    using QueryData_one_response_per_query [of ?req test_externals test_datasource ?qb]
      QueryData_one_response_per_query [of "\<lparr>Queries = []\<rparr>" test_externals test_datasource ?qb]
      dist u mem e r
    by simp
qed

text \<open>
  The claim C5 as stated fails on a batch of two queries that share a \<^verbatim>\<open>RefID\<close>: the
  map has one entry, not two.
\<close>

theorem QueryData_shared_RefID_counterexample:
  "card (dom (Responses (fst (snd (QueryData test_externals test_datasource
        \<lparr>Queries = [test_query ''A'' test_json 20, test_query ''A'' ''Not JSON'' 20]\<rparr>)))))
     \<noteq> length [test_query ''A'' test_json 20, test_query ''A'' ''Not JSON'' 20]"
proof -
  have r: "RefID (test_query ''A'' js n) = ''A''" for js n
    by (simp add: test_query_def)
  show ?thesis by (simp add: QueryData_dom r)
qed

section \<open>Properties of the labels\<close>

lemma takeWhile_no_slash:
  assumes "CHR ''/'' \<notin> set t"
  shows "takeWhile (\<lambda>c. c \<noteq> CHR ''/'') (rev t) = rev t"
proof -
  from assms have "\<forall>x \<in> set (rev t). x \<noteq> CHR ''/''" by auto
  then show ?thesis by (simp only: takeWhile_eq_all_conv)
qed

lemma final_segment_after_slash:
  assumes "CHR ''/'' \<notin> set t"
  shows "final_segment (p @ ''/'' @ t) = t"
proof -
  have "takeWhile (\<lambda>c. c \<noteq> CHR ''/'') (rev t @ CHR ''/'' # rev p)
      = takeWhile (\<lambda>c. c \<noteq> CHR ''/'') (rev t)"
    by (rule takeWhile_tail) simp
  also have "\<dots> = rev t"
    by (rule takeWhile_no_slash [OF assms])
  finally show ?thesis by (simp add: final_segment_def)
qed

lemma final_segment_no_slash:
  assumes "CHR ''/'' \<notin> set s"
  shows "final_segment s = s"
  by (simp add: final_segment_def takeWhile_no_slash [OF assms])

lemma GetLogLabels_trace_keys:
  assumes "Trace entry \<noteq> []"
  shows "GetLogLabels entry ''trace'' = Some (Trace entry)"
    and "GetLogLabels entry ''traceId'' = Some (final_segment (Trace entry))"
  using assms by (simp_all add: GetLogLabels_def Let_def)

text \<open>
  Claim C4. For a record with a non-empty trace reference, the label \<^verbatim>\<open>trace\<close> is the
  reference itself and the label \<^verbatim>\<open>traceId\<close> is the text after its last \<^verbatim>\<open>/\<close>: whenever
  the reference reads \<open>p/t\<close> with no \<^verbatim>\<open>/\<close> in \<open>t\<close>, \<^verbatim>\<open>traceId\<close> is \<open>t\<close> (the whole reference
  when it has no \<^verbatim>\<open>/\<close>); in particular \<^verbatim>\<open>projects/<id>/traces/<trace-id>\<close> gives
  exactly \<^verbatim>\<open><trace-id>\<close>.
\<close>

theorem GetLogLabels_trace_and_traceId:
  "Trace entry \<noteq> [] \<longrightarrow>
     GetLogLabels entry ''trace'' = Some (Trace entry)
     \<and> (\<forall>p t. Trace entry = p @ ''/'' @ t \<and> CHR ''/'' \<notin> set t
            \<longrightarrow> GetLogLabels entry ''traceId'' = Some t)
     \<and> (CHR ''/'' \<notin> set (Trace entry)
            \<longrightarrow> GetLogLabels entry ''traceId'' = Some (Trace entry))
     \<and> (\<forall>i t. Trace entry = ''projects/'' @ i @ ''/traces/'' @ t \<and> CHR ''/'' \<notin> set t
            \<longrightarrow> GetLogLabels entry ''traceId'' = Some t)"
proof (intro impI conjI allI)
  assume ne: "Trace entry \<noteq> []"
  show "GetLogLabels entry ''trace'' = Some (Trace entry)"
    by (rule GetLogLabels_trace_keys(1) [OF ne])
  show "GetLogLabels entry ''traceId'' = Some t"
    if "Trace entry = p @ ''/'' @ t \<and> CHR ''/'' \<notin> set t" for p t
    using that GetLogLabels_trace_keys(2) [OF ne] final_segment_after_slash [of t p]
    by simp
  show "GetLogLabels entry ''traceId'' = Some (Trace entry)"
    if "CHR ''/'' \<notin> set (Trace entry)"
    using that GetLogLabels_trace_keys(2) [OF ne] final_segment_no_slash by simp
  show "GetLogLabels entry ''traceId'' = Some t"
    if h: "Trace entry = ''projects/'' @ i @ ''/traces/'' @ t \<and> CHR ''/'' \<notin> set t" for i t
  proof -
    from h have "Trace entry = (''projects/'' @ i @ ''/traces'') @ ''/'' @ t" by simp
    with h show ?thesis
      using GetLogLabels_trace_keys(2) [OF ne]
        final_segment_after_slash [of t "''projects/'' @ i @ ''/traces''"]
      by simp
  qed
qed

theorem GetLogLabels_trace_and_traceId_witness:
  "GetLogLabels test_logEntry ''trace''
     = Some ''projects/xxx/traces/c0e331eab1515bbcd1b8306029902ff7''
   \<and> GetLogLabels test_logEntry ''traceId'' = Some ''c0e331eab1515bbcd1b8306029902ff7''"
proof -
  have t: "Trace test_logEntry = ''projects/xxx/traces/c0e331eab1515bbcd1b8306029902ff7''"
    by (simp add: test_logEntry_def)
  have ne: "Trace test_logEntry \<noteq> []"
    by (simp add: t)
  have d: "Trace test_logEntry
      = ''projects/'' @ ''xxx'' @ ''/traces/'' @ ''c0e331eab1515bbcd1b8306029902ff7''
      \<and> CHR ''/'' \<notin> set ''c0e331eab1515bbcd1b8306029902ff7''"
    by (simp add: t)
  from GetLogLabels_trace_and_traceId [of test_logEntry] ne
  have "GetLogLabels test_logEntry ''trace'' = Some (Trace test_logEntry)"
    and "\<forall>i t. Trace test_logEntry = ''projects/'' @ i @ ''/traces/'' @ t \<and> CHR ''/'' \<notin> set t
            \<longrightarrow> GetLogLabels test_logEntry ''traceId'' = Some t"
    by blast+
  with d show ?thesis by (simp only: t) blast
qed

end
